theory Spec2Isabelle
  imports Main "HOL-Library.Word"
begin

unbundle bit_operations_syntax

text \<open>
  The session and rate-limiting core of the authentication backend: the rate limiter, the
  checks on the OAuth transaction cookie, the three session stores behind their common
  interface, the session middleware, and the PKCE pair with its encoding and digest. A
  definition carries the name of the function it models, a method that of its class as
  well; what the platform provides (the clock, \<^verbatim>\<open>JSON.parse\<close>, the random source,
  the identity provider) is an argument. Definitions come first, properties after them.
\<close>

section \<open>Data model\<close>

text \<open>
  Times are epoch milliseconds as returned by \<^verbatim>\<open>Date.now()\<close>; they are integral and
  far inside the range in which a JavaScript number is exact, so they are modelled as
  \<^typ>\<open>int\<close>. Every function that reads the clock takes the reading as its argument
  \<open>now\<close>.
\<close>

text \<open>\<^verbatim>\<open>interface SessionData\<close> of session-store.ts: an optional field is an option.\<close>

record SessionData =
  sessionId :: string
  userId :: string
  accessToken :: "string option"
  refreshToken :: "string option"
  idToken :: "string option"
  expiresAt :: int

text \<open>
  \<^verbatim>\<open>Partial<SessionData>\<close>: every field may be left out (\<open>None\<close>). A field that is
  optional in \<^verbatim>\<open>SessionData\<close> can also be given with the value \<^verbatim>\<open>undefined\<close>
  (\<open>Some None\<close>), which the object spread copies like any other value.
\<close>

record SessionUpdates =
  upd_sessionId :: "string option"
  upd_userId :: "string option"
  upd_accessToken :: "string option option"
  upd_refreshToken :: "string option option"
  upd_idToken :: "string option option"
  upd_expiresAt :: "int option"

text \<open>The object spread \<^verbatim>\<open>{ ...session, ...updates }\<close>.\<close>

definition spread :: "SessionData \<Rightarrow> SessionUpdates \<Rightarrow> SessionData" where
  "spread session updates =
     \<lparr> sessionId = (case upd_sessionId updates of None \<Rightarrow> sessionId session | Some v \<Rightarrow> v),
       userId = (case upd_userId updates of None \<Rightarrow> userId session | Some v \<Rightarrow> v),
       accessToken = (case upd_accessToken updates of None \<Rightarrow> accessToken session | Some v \<Rightarrow> v),
       refreshToken = (case upd_refreshToken updates of None \<Rightarrow> refreshToken session | Some v \<Rightarrow> v),
       idToken = (case upd_idToken updates of None \<Rightarrow> idToken session | Some v \<Rightarrow> v),
       expiresAt = (case upd_expiresAt updates of None \<Rightarrow> expiresAt session | Some v \<Rightarrow> v) \<rparr>"

section \<open>Rate limiter (rate-limiter.ts)\<close>

record RateLimitRecord =
  count :: int
  resetTime :: int

record RateLimitOptions =
  maxRequests :: int
  windowMs :: int
  skipSuccessfulRequests :: bool
  message :: string
  skipIps :: "string list"

text \<open>The object \<^verbatim>\<open>{ allowed, remaining, resetTime }\<close> returned by \<^verbatim>\<open>check\<close>.\<close>

record CheckResult =
  allowed :: bool
  remaining :: int
  result_resetTime :: int

text \<open>The private \<^verbatim>\<open>records\<close> map of the class \<^verbatim>\<open>RateLimiter\<close>, keyed by IP.\<close>

type_synonym records = "string \<rightharpoonup> RateLimitRecord"

text \<open>
  \<^verbatim>\<open>RateLimiter.check\<close>. The record is created, or replaced when its window has elapsed
  (\<^verbatim>\<open>record.resetTime < now\<close>); the map is written only in that case.
\<close>

definition check :: "RateLimitOptions \<Rightarrow> int \<Rightarrow> string \<Rightarrow> records \<Rightarrow> CheckResult \<times> records" where
  "check options now ip recs =
     (let fresh = \<lparr> count = 0, resetTime = now + windowMs options \<rparr>;
          (record, recs') =
            (case recs ip of
               None \<Rightarrow> (fresh, recs(ip \<mapsto> fresh))
             | Some r \<Rightarrow> if resetTime r < now then (fresh, recs(ip \<mapsto> fresh)) else (r, recs))
      in (\<lparr> allowed = count record < maxRequests options,
            remaining = max 0 (maxRequests options - count record - 1),
            result_resetTime = resetTime record \<rparr>, recs'))"

text \<open>\<^verbatim>\<open>RateLimiter.increment\<close>: only an existing record is counted up.\<close>

definition increment :: "string \<Rightarrow> records \<Rightarrow> records" where
  "increment ip recs =
     (case recs ip of None \<Rightarrow> recs | Some r \<Rightarrow> recs(ip \<mapsto> r\<lparr> count := count r + 1 \<rparr>))"

text \<open>
  The admission step of \<^verbatim>\<open>rateLimitMiddleware\<close>: \<^verbatim>\<open>check\<close>, the 429 error when the
  request is not allowed (nothing is counted then), otherwise \<^verbatim>\<open>increment\<close> before the
  request is resolved.
\<close>

definition check_then_increment ::
  "RateLimitOptions \<Rightarrow> int \<Rightarrow> string \<Rightarrow> records \<Rightarrow> CheckResult \<times> records" where
  "check_then_increment options now ip recs =
     (let (res, recs') = check options now ip recs
      in if \<not> allowed res then (res, recs') else (res, increment ip recs'))"

text \<open>Sequential requests of one client, one per clock reading of the list.\<close>

fun requests :: "RateLimitOptions \<Rightarrow> string \<Rightarrow> int list \<Rightarrow> records \<Rightarrow> CheckResult list \<times> records" where
  "requests options ip [] recs = ([], recs)"
| "requests options ip (now # ts) recs =
     (let (res, recs') = check_then_increment options now ip recs;
          (rest, recs'') = requests options ip ts recs'
      in (res # rest, recs''))"

section \<open>Auth service (bff.ts)\<close>

text \<open>\<^verbatim>\<open>BFFAuthService.shouldRefreshToken\<close>.\<close>

definition shouldRefreshToken :: "int \<Rightarrow> SessionData \<Rightarrow> bool" where
  "shouldRefreshToken now session \<longleftrightarrow> expiresAt session - now < 300000"

section \<open>OAuth transaction state (utils.ts)\<close>

text \<open>
  The value \<^verbatim>\<open>JSON.parse\<close> returns. An object is the list of its own properties; a
  property is read with \<open>map_of\<close>, and a missing one is \<^verbatim>\<open>undefined\<close>. A number of a
  transaction cookie is a clock reading, hence an \<^typ>\<open>int\<close>.
\<close>

datatype json =
  JNull
| JBool bool
| JNum int
| JStr string
| JArr "json list"
| JObj "(string \<times> json) list"

record OAuthState =
  state :: string
  codeVerifier :: string
  timestamp :: int

definition isValidState :: "string \<Rightarrow> bool" where
  "isValidState st \<longleftrightarrow> length st \<ge> 16"

definition isValidTimestamp :: "int \<Rightarrow> int \<Rightarrow> bool" where
  "isValidTimestamp now ts =
     (let maxAge = 10 * 60 * 1000 in now - ts < maxAge)"

text \<open>
  \<^verbatim>\<open>parseOAuthState\<close>. \<^verbatim>\<open>JSON.parse\<close> is the platform's; it is the parameter
  \<open>JSON_parse\<close>, \<open>None\<close> when it throws. Reading a property of \<^verbatim>\<open>null\<close> throws as
  well, and the \<^verbatim>\<open>catch\<close> returns \<^verbatim>\<open>null\<close>; a property of any other value that is
  not an object is \<^verbatim>\<open>undefined\<close>, which fails the first \<^verbatim>\<open>typeof\<close> test.
\<close>

definition parseOAuthState :: "(string \<Rightarrow> json option) \<Rightarrow> int \<Rightarrow> string \<Rightarrow> OAuthState option" where
  "parseOAuthState JSON_parse now stateData =
     (case JSON_parse stateData of
        None \<Rightarrow> None
      | Some (JObj props) \<Rightarrow>
          (case (map_of props ''state'', map_of props ''codeVerifier'', map_of props ''timestamp'') of
             (Some (JStr st), Some (JStr cv), Some (JNum ts)) \<Rightarrow>
               if isValidState st \<and> isValidTimestamp now ts
               then Some \<lparr> state = st, codeVerifier = cv, timestamp = ts \<rparr>
               else None
           | _ \<Rightarrow> None)
      | Some _ \<Rightarrow> None)"

section \<open>OAuth callback (routes/auth/callback/+server.ts)\<close>

datatype callback_error = invalid_request | invalid_state | auth_failed

text \<open>
  The checks of the \<^verbatim>\<open>GET\<close> handler that precede the token exchange. A query
  parameter or cookie that is missing is \<open>None\<close>; the empty string is falsy like a
  missing one. The handler goes on to the exchange with the parsed transaction data
  (\<open>Inr\<close>), or redirects to \<^verbatim>\<open>/?error=<kind>\<close> (\<open>Inl\<close>).
\<close>

definition falsy :: "string option \<Rightarrow> bool" where
  "falsy v \<longleftrightarrow> (case v of None \<Rightarrow> True | Some s \<Rightarrow> s = [])"

definition callback_checks ::
  "(string \<Rightarrow> json option) \<Rightarrow> int \<Rightarrow> string option \<Rightarrow> string option \<Rightarrow> string option
     \<Rightarrow> callback_error + OAuthState" where
  "callback_checks JSON_parse now code state_param storedData =
     (if falsy storedData \<or> falsy code \<or> falsy state_param then Inl invalid_request
      else case parseOAuthState JSON_parse now (the storedData) of
             None \<Rightarrow> Inl invalid_request
           | Some oauthData \<Rightarrow>
               if the state_param \<noteq> state oauthData then Inl invalid_state
               else Inr oauthData)"

section \<open>Session stores\<close>

subsection \<open>In-memory store (stores/memory.ts)\<close>

text \<open>The private \<^verbatim>\<open>sessions\<close> map of \<^verbatim>\<open>MemorySessionStore\<close>.\<close>

type_synonym sessions = "string \<rightharpoonup> SessionData"

definition MemorySessionStore_createSession :: "SessionData \<Rightarrow> sessions \<Rightarrow> sessions" where
  "MemorySessionStore_createSession sessionData sessions =
     sessions(sessionId sessionData \<mapsto> sessionData)"

definition MemorySessionStore_getSession :: "string \<Rightarrow> sessions \<Rightarrow> SessionData option" where
  "MemorySessionStore_getSession sid sessions = sessions sid"

definition MemorySessionStore_updateSession ::
  "string \<Rightarrow> SessionUpdates \<Rightarrow> sessions \<Rightarrow> bool \<times> sessions" where
  "MemorySessionStore_updateSession sid updates sessions =
     (case sessions sid of
        None \<Rightarrow> (False, sessions)
      | Some session \<Rightarrow> (True, sessions(sid \<mapsto> spread session updates)))"

definition MemorySessionStore_deleteSession :: "string \<Rightarrow> sessions \<Rightarrow> bool \<times> sessions" where
  "MemorySessionStore_deleteSession sid sessions = (sessions sid \<noteq> None, sessions(sid := None))"

text \<open>The sweep deletes every entry with \<^verbatim>\<open>session.expiresAt < now\<close>.\<close>

definition MemorySessionStore_cleanupExpiredSessions :: "int \<Rightarrow> sessions \<Rightarrow> sessions" where
  "MemorySessionStore_cleanupExpiredSessions now sessions =
     (\<lambda>sid. case sessions sid of
               None \<Rightarrow> None
             | Some session \<Rightarrow> if expiresAt session < now then None else Some session)"

subsection \<open>Relational store (stores/postgres.ts)\<close>

text \<open>
  A row of the table \<^verbatim>\<open>sessions\<close> without its primary key \<^verbatim>\<open>session_id\<close>; a
  nullable column is an option. The table maps the primary key to the row.
\<close>

record pg_row =
  user_id :: string
  access_token :: "string option"
  refresh_token :: "string option"
  id_token :: "string option"
  expires_at :: int

type_synonym pg_table = "string \<rightharpoonup> pg_row"

text \<open>\<^verbatim>\<open>INSERT ... ON CONFLICT (session_id) DO UPDATE SET ...\<close>: an upsert of all columns.\<close>

definition PostgresSessionStore_createSession :: "SessionData \<Rightarrow> pg_table \<Rightarrow> pg_table" where
  "PostgresSessionStore_createSession sessionData tbl =
     tbl(sessionId sessionData \<mapsto>
       \<lparr> user_id = userId sessionData,
         access_token = accessToken sessionData,
         refresh_token = refreshToken sessionData,
         id_token = idToken sessionData,
         expires_at = expiresAt sessionData \<rparr>)"

text \<open>\<^verbatim>\<open>SELECT ... WHERE session_id = $1 AND expires_at > $2\<close> with \<^verbatim>\<open>[sessionId, Date.now()]\<close>.\<close>

definition PostgresSessionStore_getSession :: "int \<Rightarrow> string \<Rightarrow> pg_table \<Rightarrow> SessionData option" where
  "PostgresSessionStore_getSession now sid tbl =
     (case tbl sid of
        None \<Rightarrow> None
      | Some row \<Rightarrow>
          if expires_at row > now
          then Some \<lparr> sessionId = sid,
                      userId = user_id row,
                      accessToken = access_token row,
                      refreshToken = refresh_token row,
                      idToken = id_token row,
                      expiresAt = expires_at row \<rparr>
          else None)"

definition PostgresSessionStore_updateSession ::
  "int \<Rightarrow> string \<Rightarrow> SessionUpdates \<Rightarrow> pg_table \<Rightarrow> bool \<times> pg_table" where
  "PostgresSessionStore_updateSession now sid updates tbl =
     (case PostgresSessionStore_getSession now sid tbl of
        None \<Rightarrow> (False, tbl)
      | Some session \<Rightarrow> (True, PostgresSessionStore_createSession (spread session updates) tbl))"

text \<open>\<^verbatim>\<open>DELETE FROM sessions WHERE session_id = $1\<close>; the result is \<^verbatim>\<open>rowCount > 0\<close>.\<close>

definition PostgresSessionStore_deleteSession :: "string \<Rightarrow> pg_table \<Rightarrow> bool \<times> pg_table" where
  "PostgresSessionStore_deleteSession sid tbl = (tbl sid \<noteq> None, tbl(sid := None))"

text \<open>\<^verbatim>\<open>DELETE FROM sessions WHERE expires_at < $1\<close> with \<^verbatim>\<open>[Date.now()]\<close>.\<close>

definition PostgresSessionStore_cleanupExpiredSessions :: "int \<Rightarrow> pg_table \<Rightarrow> pg_table" where
  "PostgresSessionStore_cleanupExpiredSessions now tbl =
     (\<lambda>sid. case tbl sid of
               None \<Rightarrow> None
             | Some row \<Rightarrow> if expires_at row < now then None else Some row)"

subsection \<open>Key-value store with TTL (stores/redis.ts)\<close>

text \<open>
  The Redis server as the client sees it: a key holds a text and the time at which it
  expires; a key whose time has come is gone for every command. The texts are told apart by
  what the store does with them: the empty text, which \<^verbatim>\<open>!data\<close> takes for a missing
  key; the text \<^verbatim>\<open>JSON.stringify\<close> made of a session, which \<^verbatim>\<open>JSON.parse\<close> turns back
  into that session; and a text on which \<^verbatim>\<open>JSON.parse\<close> throws. A text that parses to
  something that is not a session is let through by the cast \<^verbatim>\<open>as SessionData\<close> as a
  value outside that type; the model is typed as the source is and has no such value, so
  nothing is said of a key that holds such a text.
\<close>

datatype redis_value = EmptyText | SessionJSON SessionData | Malformed

record redis_entry =
  payload :: redis_value
  expires :: int

type_synonym redis_db = "string \<rightharpoonup> redis_entry"


text \<open>\<^verbatim>\<open>JSON.parse\<close> with the cast; \<open>None\<close> when it throws, as it does on the empty text too.\<close>

definition JSON_parse_session :: "redis_value \<Rightarrow> SessionData option" where
  "JSON_parse_session data =
     (case data of SessionJSON session \<Rightarrow> Some session | EmptyText \<Rightarrow> None | Malformed \<Rightarrow> None)"

definition redis_get :: "int \<Rightarrow> string \<Rightarrow> redis_db \<Rightarrow> redis_value option" where
  "redis_get now key db =
     (case db key of
        None \<Rightarrow> None
      | Some e \<Rightarrow> if expires e \<le> now then None else Some (payload e))"


definition redis_del :: "int \<Rightarrow> string \<Rightarrow> redis_db \<Rightarrow> int \<times> redis_db" where
  "redis_del now key db = ((if redis_get now key db = None then 0 else 1), db(key := None))"

text \<open>The options of the store, with their defaults \<^verbatim>\<open>"session:"\<close> and 86400.\<close>

record RedisSessionStore =
  prefix :: string
  defaultTTL :: int

definition getKey :: "RedisSessionStore \<Rightarrow> string \<Rightarrow> string" where
  "getKey store sid = prefix store @ sid"


definition RedisSessionStore_deleteSession ::
  "RedisSessionStore \<Rightarrow> int \<Rightarrow> string \<Rightarrow> redis_db \<Rightarrow> bool \<times> redis_db" where
  "RedisSessionStore_deleteSession store now sid db =
     (let (deleted, db') = redis_del now (getKey store sid) db in (deleted > 0, db'))"

text \<open>
  \<^verbatim>\<open>getSession\<close>. \<^verbatim>\<open>if (!data) return null\<close> answers "not found" for a missing key
  and for the empty text alike, and touches nothing. A session read from the server is
  checked once more against the clock; an expired one, and a text that does not parse, is
  deleted.
\<close>

definition RedisSessionStore_getSession ::
  "RedisSessionStore \<Rightarrow> int \<Rightarrow> string \<Rightarrow> redis_db \<Rightarrow> SessionData option \<times> redis_db" where
  "RedisSessionStore_getSession store now sid db =
     (case redis_get now (getKey store sid) db of
        None \<Rightarrow> (None, db)
      | Some data \<Rightarrow>
          if data = EmptyText then (None, db)
          else
            (case JSON_parse_session data of
               Some session \<Rightarrow>
                 if expiresAt session < now
                 then (None, snd (RedisSessionStore_deleteSession store now sid db))
                 else (Some session, db)
             | None \<Rightarrow> (None, snd (RedisSessionStore_deleteSession store now sid db))))"


subsection \<open>The store interface (session-store.ts)\<close>

text \<open>
  \<^verbatim>\<open>interface SessionStore\<close> over a store state \<open>'st\<close>. An operation is given the clock
  reading, returns the state it leaves, and either its value or the error it throws
  (a rejected promise).
\<close>

datatype error = Error string

record 'st SessionStore =
  createSession :: "int \<Rightarrow> SessionData \<Rightarrow> 'st \<Rightarrow> (error + unit) \<times> 'st"
  getSession :: "int \<Rightarrow> string \<Rightarrow> 'st \<Rightarrow> (error + SessionData option) \<times> 'st"
  updateSession :: "int \<Rightarrow> string \<Rightarrow> SessionUpdates \<Rightarrow> 'st \<Rightarrow> (error + bool) \<times> 'st"
  deleteSession :: "int \<Rightarrow> string \<Rightarrow> 'st \<Rightarrow> (error + bool) \<times> 'st"
  cleanupExpiredSessions :: "int \<Rightarrow> 'st \<Rightarrow> (error + unit) \<times> 'st"

text \<open>The in-memory store behind the interface: its methods are synchronous and never throw.\<close>

definition MemorySessionStore :: "sessions SessionStore" where
  "MemorySessionStore =
     \<lparr> createSession = (\<lambda>now sd st. (Inr (), MemorySessionStore_createSession sd st)),
       getSession = (\<lambda>now sid st. (Inr (MemorySessionStore_getSession sid st), st)),
       updateSession = (\<lambda>now sid u st.
          (Inr (fst (MemorySessionStore_updateSession sid u st)),
           snd (MemorySessionStore_updateSession sid u st))),
       deleteSession = (\<lambda>now sid st.
          (Inr (fst (MemorySessionStore_deleteSession sid st)),
           snd (MemorySessionStore_deleteSession sid st))),
       cleanupExpiredSessions = (\<lambda>now st.
          (Inr (), MemorySessionStore_cleanupExpiredSessions now st)) \<rparr>"

text \<open>
  The relational store behind the interface. \<^verbatim>\<open>PostgresClient.query\<close> returns a promise
  that is rejected when the database cannot be reached; every method awaits its first query
  before anything else, so it throws there and leaves the table as it was.
\<close>

record PostgresClient =
  table :: pg_table
  reachable :: bool

definition query_failed :: error where
  "query_failed = Error ''query failed''"

definition PostgresSessionStore :: "PostgresClient SessionStore" where
  "PostgresSessionStore =
     \<lparr> createSession = (\<lambda>now sd db.
          if \<not> reachable db then (Inl query_failed, db)
          else (Inr (), db\<lparr> table := PostgresSessionStore_createSession sd (table db) \<rparr>)),
       getSession = (\<lambda>now sid db.
          if \<not> reachable db then (Inl query_failed, db)
          else (Inr (PostgresSessionStore_getSession now sid (table db)), db)),
       updateSession = (\<lambda>now sid u db.
          if \<not> reachable db then (Inl query_failed, db)
          else (Inr (fst (PostgresSessionStore_updateSession now sid u (table db))),
                db\<lparr> table := snd (PostgresSessionStore_updateSession now sid u (table db)) \<rparr>)),
       deleteSession = (\<lambda>now sid db.
          if \<not> reachable db then (Inl query_failed, db)
          else (Inr (fst (PostgresSessionStore_deleteSession sid (table db))),
                db\<lparr> table := snd (PostgresSessionStore_deleteSession sid (table db)) \<rparr>)),
       cleanupExpiredSessions = (\<lambda>now db.
          if \<not> reachable db then (Inl query_failed, db)
          else (Inr (), db\<lparr> table := PostgresSessionStore_cleanupExpiredSessions now (table db) \<rparr>)) \<rparr>"

section \<open>Auth service, continued: token refresh and session delegation (bff.ts)\<close>

record TokenResponse =
  tr_access_token :: string
  tr_refresh_token :: "string option"
  tr_id_token :: "string option"
  expires_in :: int
  token_type :: string
  sub :: string

text \<open>
  The identity provider's answer to \<^verbatim>\<open>POST {issuer}/token\<close>: \<^verbatim>\<open>response.ok\<close>, and the
  body as \<^verbatim>\<open>response.json()\<close> yields it (\<open>None\<close> when that throws). The provider is a
  function of the refresh token; \<open>Inl\<close> when \<^verbatim>\<open>fetch\<close> itself fails.
\<close>

record HttpResponse =
  ok :: bool
  body :: "TokenResponse option"

type_synonym provider = "string \<Rightarrow> error + HttpResponse"

definition BFFAuthService_refreshToken :: "provider \<Rightarrow> string \<Rightarrow> error + TokenResponse" where
  "BFFAuthService_refreshToken fetch token =
     (case fetch token of
        Inl e \<Rightarrow> Inl e
      | Inr response \<Rightarrow>
          if \<not> ok response then Inl (Error ''Token refresh failed'')
          else (case body response of
                  None \<Rightarrow> Inl (Error ''invalid json'')
                | Some tokens \<Rightarrow> Inr tokens))"

text \<open>
  \<^verbatim>\<open>BFFAuthService.getSession\<close> and \<^verbatim>\<open>updateSession\<close> hand the call to the injected
  store and await its result; nothing is caught.
\<close>

definition BFFAuthService_getSession ::
  "'st SessionStore \<Rightarrow> int \<Rightarrow> string \<Rightarrow> 'st \<Rightarrow> (error + SessionData option) \<times> 'st" where
  "BFFAuthService_getSession sessionStore now sid st = getSession sessionStore now sid st"

definition BFFAuthService_updateSession ::
  "'st SessionStore \<Rightarrow> int \<Rightarrow> string \<Rightarrow> SessionUpdates \<Rightarrow> 'st \<Rightarrow> (error + bool) \<times> 'st" where
  "BFFAuthService_updateSession sessionStore now sid updates st =
     updateSession sessionStore now sid updates st"

section \<open>Session middleware (middleware.ts)\<close>

text \<open>The part of the request event the middleware reads and writes.\<close>

record LocalsUser =
  user_userId :: string
  user_sessionId :: string

record Event =
  cookies :: "string \<rightharpoonup> string"
  locals_user :: "LocalsUser option"
  locals_accessToken :: "string option"

text \<open>
  What the middleware hands on: \<open>Resolved\<close> is \<^verbatim>\<open>return resolve(event)\<close> with the event
  as the downstream handler receives it; \<open>Thrown\<close> is an error that leaves the middleware.
  Both carry the store's state.
\<close>

datatype 'st handled = Resolved Event 'st | Thrown error 'st

text \<open>The two ways of going on without an identity: with and without deleting the cookie.\<close>

definition anonymous :: "Event \<Rightarrow> Event" where
  "anonymous event = event\<lparr> locals_user := None, locals_accessToken := None \<rparr>"

definition clear_session :: "Event \<Rightarrow> Event" where
  "clear_session event =
     event\<lparr> cookies := (cookies event)(''session_id'' := None),
            locals_user := None, locals_accessToken := None \<rparr>"

definition inject :: "SessionData \<Rightarrow> Event \<Rightarrow> Event" where
  "inject session event =
     event\<lparr> locals_user := Some \<lparr> user_userId = userId session, user_sessionId = sessionId session \<rparr>,
            locals_accessToken := accessToken session \<rparr>"

text \<open>
  The object the middleware passes to \<^verbatim>\<open>updateSession\<close> after a refresh:
  \<^verbatim>\<open>accessToken\<close>, \<^verbatim>\<open>refreshToken: newTokens.refresh_token || session.refreshToken\<close> and
  \<^verbatim>\<open>expiresAt: Date.now() + newTokens.expires_in * 1000\<close>.
\<close>

definition refreshed :: "int \<Rightarrow> SessionData \<Rightarrow> TokenResponse \<Rightarrow> SessionUpdates" where
  "refreshed now session newTokens =
     \<lparr> upd_sessionId = None,
       upd_userId = None,
       upd_accessToken = Some (Some (tr_access_token newTokens)),
       upd_refreshToken =
         Some (if falsy (tr_refresh_token newTokens) then refreshToken session
               else tr_refresh_token newTokens),
       upd_idToken = None,
       upd_expiresAt = Some (now + expires_in newTokens * 1000) \<rparr>"

text \<open>
  \<^verbatim>\<open>authMiddleware\<close>. The request is handled at one clock reading \<open>now\<close>. The first
  \<^verbatim>\<open>getSession\<close> stands before the \<^verbatim>\<open>try\<close>; the refresh, the update and the second
  \<^verbatim>\<open>getSession\<close> stand inside it, and its \<^verbatim>\<open>catch\<close> clears the session.
\<close>

definition authMiddleware ::
  "'st SessionStore \<Rightarrow> provider \<Rightarrow> int \<Rightarrow> Event \<Rightarrow> 'st \<Rightarrow> 'st handled" where
  "authMiddleware sessionStore fetch now event st =
     (if falsy (cookies event ''session_id'') then Resolved (anonymous event) st
      else
        let sid = the (cookies event ''session_id'') in
        case BFFAuthService_getSession sessionStore now sid st of
          (Inl e, st1) \<Rightarrow> Thrown e st1
        | (Inr None, st1) \<Rightarrow> Resolved (clear_session event) st1
        | (Inr (Some session), st1) \<Rightarrow>
            if expiresAt session < now then Resolved (clear_session event) st1
            else if shouldRefreshToken now session \<and> \<not> falsy (refreshToken session) then
              (case BFFAuthService_refreshToken fetch (the (refreshToken session)) of
                 Inl e \<Rightarrow> Resolved (clear_session event) st1
               | Inr newTokens \<Rightarrow>
                   (case BFFAuthService_updateSession sessionStore now sid
                           (refreshed now session newTokens) st1 of
                      (Inl e, st2) \<Rightarrow> Resolved (clear_session event) st2
                    | (Inr False, st2) \<Rightarrow> Resolved (clear_session event) st2
                    | (Inr True, st2) \<Rightarrow>
                        (case BFFAuthService_getSession sessionStore now sid st2 of
                           (Inl e, st3) \<Rightarrow> Resolved (clear_session event) st3
                         | (Inr None, st3) \<Rightarrow> Resolved event st3
                         | (Inr (Some updatedSession), st3) \<Rightarrow>
                             Resolved (inject updatedSession event) st3)))
            else Resolved (inject session event) st1)"

section \<open>PKCE (bff.ts)\<close>

type_synonym byte = "8 word"

subsection \<open>The \<^verbatim>\<open>base64url\<close> encoding of Node's \<^verbatim>\<open>Buffer.toString\<close>\<close>

definition base64url_alphabet :: string where
  "base64url_alphabet =
     ''ABCDEFGHIJKLMNOPQRSTUVWXYZabcdefghijklmnopqrstuvwxyz0123456789-_''"

definition sextet :: "byte \<Rightarrow> char" where
  "sextet v = base64url_alphabet ! unat (v AND 63)"

text \<open>Three bytes give four characters; a rest of one or two bytes gives two or three, unpadded.\<close>

fun base64url :: "byte list \<Rightarrow> string" where
  "base64url (a # b # c # rest) =
     sextet (drop_bit 2 a) #
     sextet (push_bit 4 (a AND 3) OR drop_bit 4 b) #
     sextet (push_bit 2 (b AND 15) OR drop_bit 6 c) #
     sextet (c AND 63) # base64url rest"
| "base64url [a, b] =
     [sextet (drop_bit 2 a), sextet (push_bit 4 (a AND 3) OR drop_bit 4 b),
      sextet (push_bit 2 (b AND 15))]"
| "base64url [a] = [sextet (drop_bit 2 a), sextet (push_bit 4 (a AND 3))]"
| "base64url [] = []"

subsection \<open>SHA-256 (FIPS 180-4), the digest of \<^verbatim>\<open>crypto.createHash("sha256")\<close>\<close>

type_synonym w32 = "32 word"

definition rotr :: "nat \<Rightarrow> w32 \<Rightarrow> w32" where
  "rotr n x = drop_bit n x OR push_bit (32 - n) x"

definition Ch :: "w32 \<Rightarrow> w32 \<Rightarrow> w32 \<Rightarrow> w32" where
  "Ch x y z = (x AND y) XOR (NOT x AND z)"

definition Maj :: "w32 \<Rightarrow> w32 \<Rightarrow> w32 \<Rightarrow> w32" where
  "Maj x y z = (x AND y) XOR (x AND z) XOR (y AND z)"

definition Sigma0 :: "w32 \<Rightarrow> w32" where
  "Sigma0 x = rotr 2 x XOR rotr 13 x XOR rotr 22 x"

definition Sigma1 :: "w32 \<Rightarrow> w32" where
  "Sigma1 x = rotr 6 x XOR rotr 11 x XOR rotr 25 x"

definition sigma0 :: "w32 \<Rightarrow> w32" where
  "sigma0 x = rotr 7 x XOR rotr 18 x XOR drop_bit 3 x"

definition sigma1 :: "w32 \<Rightarrow> w32" where
  "sigma1 x = rotr 17 x XOR rotr 19 x XOR drop_bit 10 x"

definition K256 :: "w32 list" where
  "K256 =
    [0x428A2F98, 0x71374491, 0xB5C0FBCF, 0xE9B5DBA5, 0x3956C25B, 0x59F111F1, 0x923F82A4, 0xAB1C5ED5,
     0xD807AA98, 0x12835B01, 0x243185BE, 0x550C7DC3, 0x72BE5D74, 0x80DEB1FE, 0x9BDC06A7, 0xC19BF174,
     0xE49B69C1, 0xEFBE4786, 0x0FC19DC6, 0x240CA1CC, 0x2DE92C6F, 0x4A7484AA, 0x5CB0A9DC, 0x76F988DA,
     0x983E5152, 0xA831C66D, 0xB00327C8, 0xBF597FC7, 0xC6E00BF3, 0xD5A79147, 0x06CA6351, 0x14292967,
     0x27B70A85, 0x2E1B2138, 0x4D2C6DFC, 0x53380D13, 0x650A7354, 0x766A0ABB, 0x81C2C92E, 0x92722C85,
     0xA2BFE8A1, 0xA81A664B, 0xC24B8B70, 0xC76C51A3, 0xD192E819, 0xD6990624, 0xF40E3585, 0x106AA070,
     0x19A4C116, 0x1E376C08, 0x2748774C, 0x34B0BCB5, 0x391C0CB3, 0x4ED8AA4A, 0x5B9CCA4F, 0x682E6FF3,
     0x748F82EE, 0x78A5636F, 0x84C87814, 0x8CC70208, 0x90BEFFFA, 0xA4506CEB, 0xBEF9A3F7, 0xC67178F2]"

definition H256 :: "w32 list" where
  "H256 = [0x6A09E667, 0xBB67AE85, 0x3C6EF372, 0xA54FF53A,
           0x510E527F, 0x9B05688C, 0x1F83D9AB, 0x5BE0CD19]"

text \<open>The message, the byte \<open>0x80\<close>, zeros, and the bit length as 64 bits, big-endian.\<close>

definition be_length :: "64 word \<Rightarrow> byte list" where
  "be_length n = map (\<lambda>i. ucast (drop_bit (8 * (7 - i)) n)) [0..<8]"

definition sha256_pad :: "byte list \<Rightarrow> byte list" where
  "sha256_pad m =
     m @ [0x80] @ replicate ((119 - length m mod 64) mod 64) 0 @
     be_length (of_nat (8 * length m))"

fun be_words :: "byte list \<Rightarrow> w32 list" where
  "be_words (a # b # c # d # rest) =
     (push_bit 24 (ucast a) OR push_bit 16 (ucast b) OR push_bit 8 (ucast c) OR ucast d) #
     be_words rest"
| "be_words _ = []"

definition be_bytes :: "w32 \<Rightarrow> byte list" where
  "be_bytes w = [ucast (drop_bit 24 w), ucast (drop_bit 16 w), ucast (drop_bit 8 w), ucast w]"

text \<open>
  The message schedule, newest word first: the list starts as the sixteen words of the
  block reversed, and each step puts \<open>W\<^sub>t\<close> in front of \<open>W\<^sub>t\<^sub>-\<^sub>1, ...\<close>.
\<close>

fun schedule :: "nat \<Rightarrow> w32 list \<Rightarrow> w32 list" where
  "schedule 0 ws = ws"
| "schedule (Suc n) ws =
     schedule n ((sigma1 (ws ! 1) + ws ! 6 + sigma0 (ws ! 14) + ws ! 15) # ws)"

text \<open>One round on the working variables \<open>a, ..., h\<close>, given \<open>K\<^sub>t\<close> and \<open>W\<^sub>t\<close>.\<close>

fun sha256_round :: "w32 list \<Rightarrow> w32 \<times> w32 \<Rightarrow> w32 list" where
  "sha256_round [a, b, c, d, e, f, g, h] (k, w) =
     (let T1 = h + Sigma1 e + Ch e f g + k + w;
          T2 = Sigma0 a + Maj a b c
      in [T1 + T2, a, b, c, d + T1, e, f, g])"
| "sha256_round v _ = v"

definition compress :: "w32 list \<Rightarrow> w32 list \<Rightarrow> w32 list" where
  "compress hs block =
     map2 (+) hs (foldl sha256_round hs (zip K256 (rev (schedule 48 (rev block)))))"

text \<open>The blocks of sixteen words, one after the other.\<close>

fun blocks :: "w32 list \<Rightarrow> w32 list \<Rightarrow> w32 list" where
  "blocks hs ws = (if length ws < 16 then hs else blocks (compress hs (take 16 ws)) (drop 16 ws))"

declare blocks.simps [simp del]

definition sha256 :: "byte list \<Rightarrow> byte list" where
  "sha256 m = concat (map be_bytes (blocks H256 (be_words (sha256_pad m))))"

subsection \<open>\<^verbatim>\<open>BFFAuthService.generatePKCE\<close>\<close>

text \<open>
  \<^verbatim>\<open>hash.update(codeVerifier)\<close> hashes the UTF-8 bytes of the string; the verifier is
  ASCII, one byte per character.
\<close>

definition utf8 :: "string \<Rightarrow> byte list" where
  "utf8 str = map (\<lambda>c. of_nat (of_char c)) str"

text \<open>
  \<^verbatim>\<open>crypto.randomBytes\<close> is the platform's secure random source; it is the parameter
  \<open>randomBytes\<close>, asked for 32 bytes.
\<close>

definition generatePKCE :: "(nat \<Rightarrow> byte list) \<Rightarrow> string \<times> string" where
  "generatePKCE randomBytes =
     (let codeVerifier = base64url (randomBytes 32);
          codeChallenge = base64url (sha256 (utf8 codeVerifier))
      in (codeVerifier, codeChallenge))"

text \<open>
  The challenge an authorization server recomputes from a verifier under the method
  \<^verbatim>\<open>S256\<close>: the \<^verbatim>\<open>base64url\<close> text of the SHA-256 digest of the verifier.
\<close>

definition code_challenge_S256 :: "string \<Rightarrow> string" where
  "code_challenge_S256 verifier = base64url (sha256 (utf8 verifier))"

section \<open>Fixtures\<close>

text \<open>An identity provider that cannot be reached: \<^verbatim>\<open>fetch\<close> fails for every token.\<close>

definition provider_unreachable :: provider where
  "provider_unreachable token = Inl (Error ''fetch failed'')"

text \<open>A session with a refresh token, a request that carries its identifier, a partial update.\<close>

definition session_fixture :: SessionData where
  "session_fixture =
     \<lparr> sessionId = ''s1'', userId = ''alice'', accessToken = Some ''at'',
       refreshToken = Some ''rt'', idToken = None, expiresAt = 100000 \<rparr>"

definition event_fixture :: Event where
  "event_fixture =
     \<lparr> cookies = [''session_id'' \<mapsto> ''s1''], locals_user = None, locals_accessToken = None \<rparr>"


text \<open>A provider that answers every refresh with a new access token and no new refresh token.\<close>

definition tokens_fixture :: TokenResponse where
  "tokens_fixture =
     \<lparr> tr_access_token = ''at2'', tr_refresh_token = None, tr_id_token = None,
       expires_in = 3600, token_type = ''Bearer'', sub = ''alice'' \<rparr>"

definition provider_fixture :: provider where
  "provider_fixture token = Inr \<lparr> ok = True, body = Some tokens_fixture \<rparr>"

text \<open>
  Two stores that fail in the middle of a request: one whose \<^verbatim>\<open>updateSession\<close> throws,
  and one that loses its database right after an update went through.
\<close>

definition store_update_fails :: "sessions SessionStore" where
  "store_update_fails =
     MemorySessionStore\<lparr> updateSession := (\<lambda>now sid u st. (Inl (Error ''write failed''), st)) \<rparr>"

definition store_lost_after_update :: "PostgresClient SessionStore" where
  "store_lost_after_update =
     PostgresSessionStore\<lparr> updateSession :=
       (\<lambda>now sid u db. (Inr True, db\<lparr> reachable := False \<rparr>)) \<rparr>"

text \<open>The 32 octets of the worked example of RFC 7636, Appendix B.\<close>

definition rfc7636_octets :: "byte list" where
  "rfc7636_octets =
     [116, 24, 223, 180, 151, 153, 224, 37, 79, 250, 96, 125, 216, 173, 187, 186,
      22, 212, 37, 77, 105, 214, 191, 240, 91, 88, 5, 88, 83, 132, 141, 121]"

definition rfc7636_randomBytes :: "nat \<Rightarrow> byte list" where
  "rfc7636_randomBytes n = take n rfc7636_octets"

section \<open>Rate limiter: properties\<close>

lemma check_fresh:
  "(case recs ip of None \<Rightarrow> True | Some r \<Rightarrow> resetTime r < now) \<Longrightarrow>
   check options now ip recs =
     (\<lparr> allowed = 0 < maxRequests options, remaining = max 0 (maxRequests options - 1),
        result_resetTime = now + windowMs options \<rparr>,
      recs(ip \<mapsto> \<lparr> count = 0, resetTime = now + windowMs options \<rparr>))"
  by (auto simp: check_def Let_def split: option.splits)

lemma check_live:
  "recs ip = Some r \<Longrightarrow> \<not> resetTime r < now \<Longrightarrow>
   check options now ip recs =
     (\<lparr> allowed = count r < maxRequests options,
        remaining = max 0 (maxRequests options - count r - 1),
        result_resetTime = resetTime r \<rparr>, recs)"
  by (simp add: check_def Let_def)

lemma check_then_increment_live:
  "recs ip = Some r \<Longrightarrow> \<not> resetTime r < now \<Longrightarrow>
   check_then_increment options now ip recs =
     (\<lparr> allowed = count r < maxRequests options,
        remaining = max 0 (maxRequests options - count r - 1),
        result_resetTime = resetTime r \<rparr>,
      if count r < maxRequests options then recs(ip \<mapsto> r\<lparr> count := count r + 1 \<rparr>) else recs)"
  by (simp add: check_then_increment_def check_live increment_def)

lemma requests_Cons_fst:
  "fst (requests options ip (t # ts) recs) =
     fst (check_then_increment options t ip recs) #
     fst (requests options ip ts (snd (check_then_increment options t ip recs)))"
  by (simp split: prod.splits)

lemma requests_length: "length (fst (requests options ip ts recs)) = length ts"
  by (induction ts arbitrary: recs) (simp_all add: requests_Cons_fst del: requests.simps(2))

text \<open>
  Inside one window the \<open>i\<close>-th request sees the count \<open>i\<close> requests further on, or a
  count that has stopped at the limit; the result is the same in both cases.
\<close>

lemma requests_live_nth:
  "recs ip = Some r \<Longrightarrow> \<forall>t \<in> set ts. \<not> resetTime r < t \<Longrightarrow> i < length ts \<Longrightarrow>
   fst (requests options ip ts recs) ! i =
     \<lparr> allowed = count r + int i < maxRequests options,
       remaining = max 0 (maxRequests options - (count r + int i) - 1),
       result_resetTime = resetTime r \<rparr>"
proof (induction ts arbitrary: recs r i)
  case Nil
  then show ?case by simp
next
  case (Cons t ts)
  have live: "\<not> resetTime r < t" using Cons.prems(2) by simp
  show ?case
  proof (cases i)
    case 0
    then show ?thesis
      using Cons.prems(1) live
      by (simp add: check_then_increment_live requests_Cons_fst del: requests.simps(2))
  next
    case (Suc j)
    then have j: "j < length ts" using Cons.prems(3) by simp
    show ?thesis
    proof (cases "count r < maxRequests options")
      case True
      let ?r' = "r\<lparr> count := count r + 1 \<rparr>"
      let ?recs' = "recs(ip \<mapsto> ?r')"
      have "fst (requests options ip ts ?recs') ! j =
            \<lparr> allowed = count ?r' + int j < maxRequests options,
              remaining = max 0 (maxRequests options - (count ?r' + int j) - 1),
              result_resetTime = resetTime ?r' \<rparr>"
        using Cons.prems(2) j by (intro Cons.IH) auto
      then show ?thesis
        using Cons.prems(1) live True Suc
        by (simp add: check_then_increment_live requests_Cons_fst algebra_simps
              del: requests.simps(2))
    next
      case False
      have "fst (requests options ip ts recs) ! j =
            \<lparr> allowed = count r + int j < maxRequests options,
              remaining = max 0 (maxRequests options - (count r + int j) - 1),
              result_resetTime = resetTime r \<rparr>"
        using Cons.prems(1,2) j by (intro Cons.IH) auto
      then show ?thesis
        using Cons.prems(1) live False Suc
        by (simp add: check_then_increment_live requests_Cons_fst del: requests.simps(2))
    qed
  qed
qed

lemma filter_below_upt: "length (filter (\<lambda>i. int i < M) [0..<n]) = min n (nat M)"
  by (induction n) auto

lemma requests_fresh_nth:
  assumes stale: "case recs ip of None \<Rightarrow> True | Some r \<Rightarrow> resetTime r < now"
      and win: "\<forall>t \<in> set ts. t \<le> now + windowMs options"
      and i: "i < Suc (length ts)"
  shows "fst (requests options ip (now # ts) recs) ! i =
     \<lparr> allowed = int i < maxRequests options,
       remaining = max 0 (maxRequests options - int i - 1),
       result_resetTime = now + windowMs options \<rparr>"
proof -
  let ?fresh = "\<lparr> count = 0, resetTime = now + windowMs options \<rparr>"
  let ?recs1 = "recs(ip \<mapsto> ?fresh)"
  have c: "check options now ip recs =
     (\<lparr> allowed = 0 < maxRequests options, remaining = max 0 (maxRequests options - 1),
        result_resetTime = now + windowMs options \<rparr>, ?recs1)"
    using stale by (rule check_fresh)
  show ?thesis
  proof (cases i)
    case 0
    then show ?thesis
      by (simp add: requests_Cons_fst check_then_increment_def c del: requests.simps(2))
  next
    case (Suc j)
    then have j: "j < length ts" using i by simp
    show ?thesis
    proof (cases "0 < maxRequests options")
      case True
      let ?r' = "?fresh\<lparr> count := count ?fresh + 1 \<rparr>"
      have "fst (requests options ip ts (?recs1(ip \<mapsto> ?r'))) ! j =
         \<lparr> allowed = count ?r' + int j < maxRequests options,
           remaining = max 0 (maxRequests options - (count ?r' + int j) - 1),
           result_resetTime = resetTime ?r' \<rparr>"
        using win j by (intro requests_live_nth) auto
      then show ?thesis using True Suc
        by (simp add: requests_Cons_fst check_then_increment_def c increment_def algebra_simps
              del: requests.simps(2))
    next
      case False
      have "fst (requests options ip ts ?recs1) ! j =
         \<lparr> allowed = count ?fresh + int j < maxRequests options,
           remaining = max 0 (maxRequests options - (count ?fresh + int j) - 1),
           result_resetTime = resetTime ?fresh \<rparr>"
        using win j by (intro requests_live_nth) auto
      then show ?thesis using False Suc
        by (simp add: requests_Cons_fst check_then_increment_def c del: requests.simps(2))
    qed
  qed
qed

lemma requests_fresh_map:
  assumes "case recs ip of None \<Rightarrow> True | Some r \<Rightarrow> resetTime r < now"
      and "\<forall>t \<in> set ts. t \<le> now + windowMs options"
  shows "fst (requests options ip (now # ts) recs) =
     map (\<lambda>i. \<lparr> allowed = int i < maxRequests options,
                 remaining = max 0 (maxRequests options - int i - 1),
                 result_resetTime = now + windowMs options \<rparr>) [0..<Suc (length ts)]"
proof (rule nth_equalityI)
  show "length (fst (requests options ip (now # ts) recs)) =
        length (map (\<lambda>i. \<lparr> allowed = int i < maxRequests options,
                 remaining = max 0 (maxRequests options - int i - 1),
                 result_resetTime = now + windowMs options \<rparr>) [0..<Suc (length ts)])"
    by (simp add: requests_length del: requests.simps(2))
next
  fix i assume "i < length (fst (requests options ip (now # ts) recs))"
  then have i: "i < Suc (length ts)" by (simp add: requests_length del: requests.simps(2))
  show "fst (requests options ip (now # ts) recs) ! i =
        map (\<lambda>i. \<lparr> allowed = int i < maxRequests options,
                 remaining = max 0 (maxRequests options - int i - 1),
                 result_resetTime = now + windowMs options \<rparr>) [0..<Suc (length ts)] ! i"
    using requests_fresh_nth [where recs=recs and ip=ip and now=now, OF assms i] i
    by (simp del: requests.simps(2) upt_Suc)
qed

lemma requests_fresh_admitted:
  assumes "case recs ip of None \<Rightarrow> True | Some r \<Rightarrow> resetTime r < now"
      and "\<forall>t \<in> set ts. t \<le> now + windowMs options"
  shows "length (filter allowed (fst (requests options ip (now # ts) recs))) =
         min (Suc (length ts)) (nat (maxRequests options))"
proof -
  have "length (filter allowed (fst (requests options ip (now # ts) recs))) =
        length (filter (\<lambda>i. int i < maxRequests options) [0..<Suc (length ts)])"
    unfolding requests_fresh_map [where recs=recs and ip=ip and now=now, OF assms] filter_map
    by (simp add: comp_def del: upt_Suc)
  then show ?thesis by (simp only: filter_below_upt)
qed

text \<open>
  C4. \<^verbatim>\<open>check\<close> first replaces a missing record, or one whose window has elapsed
  (\<open>resetTime < now\<close>), by \<open>count = 0\<close>, \<open>resetTime = now + windowMs\<close>; the record it
  then has is the one the map holds for the key afterwards, and it returns
  \<open>allowed = (count < maxRequests)\<close>, \<open>remaining = max 0 (maxRequests - count - 1)\<close> and
  the record's \<open>resetTime\<close>. Hence, when a window opens at \<open>now\<close> and requests follow one
  after the other inside it (check, then increment when allowed), the \<open>i\<close>-th of them,
  counted from 0, is admitted exactly when \<open>i < maxRequests\<close>: \<open>maxRequests\<close> requests
  are admitted (none when the limit is not positive), and every later check of the window returns
  \<open>allowed = False\<close> with \<open>remaining = 0\<close>.
\<close>

theorem check_contract:
  "check options now ip recs =
     (let record = (case recs ip of
                      None \<Rightarrow> \<lparr> count = 0, resetTime = now + windowMs options \<rparr>
                    | Some r \<Rightarrow> if resetTime r < now
                                then \<lparr> count = 0, resetTime = now + windowMs options \<rparr> else r)
      in (\<lparr> allowed = count record < maxRequests options,
            remaining = max 0 (maxRequests options - count record - 1),
            result_resetTime = resetTime record \<rparr>,
          recs(ip \<mapsto> record)))
   \<and> ((case recs ip of None \<Rightarrow> True | Some r \<Rightarrow> resetTime r < now) \<and>
      (\<forall>t \<in> set ts. t \<le> now + windowMs options) \<longrightarrow>
      (let results = fst (requests options ip (now # ts) recs)
       in length results = Suc (length ts) \<and>
          (\<forall>i < length results.
             allowed (results ! i) = (int i < maxRequests options) \<and>
             remaining (results ! i) = max 0 (maxRequests options - int i - 1) \<and>
             result_resetTime (results ! i) = now + windowMs options) \<and>
          length (filter allowed results) = min (length results) (nat (maxRequests options)) \<and>
          (\<forall>i < length results. maxRequests options \<le> int i \<longrightarrow>
             \<not> allowed (results ! i) \<and> remaining (results ! i) = 0)))"
proof (intro conjI impI)
  show "check options now ip recs =
     (let record = (case recs ip of
                      None \<Rightarrow> \<lparr> count = 0, resetTime = now + windowMs options \<rparr>
                    | Some r \<Rightarrow> if resetTime r < now
                                then \<lparr> count = 0, resetTime = now + windowMs options \<rparr> else r)
      in (\<lparr> allowed = count record < maxRequests options,
            remaining = max 0 (maxRequests options - count record - 1),
            result_resetTime = resetTime record \<rparr>,
          recs(ip \<mapsto> record)))"
    by (simp add: check_def Let_def map_upd_triv split: option.splits)
next
  assume h: "(case recs ip of None \<Rightarrow> True | Some r \<Rightarrow> resetTime r < now) \<and>
      (\<forall>t \<in> set ts. t \<le> now + windowMs options)"
  then have stale: "case recs ip of None \<Rightarrow> True | Some r \<Rightarrow> resetTime r < now"
    and win: "\<forall>t \<in> set ts. t \<le> now + windowMs options" by simp_all
  have len: "length (fst (requests options ip (now # ts) recs)) = Suc (length ts)"
    by (simp add: requests_length del: requests.simps(2))
  have nth: "\<And>i. i < Suc (length ts) \<Longrightarrow> fst (requests options ip (now # ts) recs) ! i =
     \<lparr> allowed = int i < maxRequests options,
       remaining = max 0 (maxRequests options - int i - 1),
       result_resetTime = now + windowMs options \<rparr>"
    using requests_fresh_nth [where recs=recs and ip=ip and now=now, OF stale win] .
  show "let results = fst (requests options ip (now # ts) recs)
       in length results = Suc (length ts) \<and>
          (\<forall>i < length results.
             allowed (results ! i) = (int i < maxRequests options) \<and>
             remaining (results ! i) = max 0 (maxRequests options - int i - 1) \<and>
             result_resetTime (results ! i) = now + windowMs options) \<and>
          length (filter allowed results) = min (length results) (nat (maxRequests options)) \<and>
          (\<forall>i < length results. maxRequests options \<le> int i \<longrightarrow>
             \<not> allowed (results ! i) \<and> remaining (results ! i) = 0)"
    unfolding Let_def len
    using nth requests_fresh_admitted [where recs=recs and ip=ip and now=now, OF stale win]
    by (simp del: requests.simps(2))
qed

text \<open>
  The scenario \<open>maxRequests = 5\<close>, \<open>windowMs = 60000\<close>: six requests of the client \<open>X\<close>
  from time 1000 on; five are admitted, the sixth is denied with \<open>remaining = 0\<close>.
\<close>

theorem check_contract_witness:
  "map allowed (fst (requests
      \<lparr> maxRequests = 5, windowMs = 60000, skipSuccessfulRequests = False,
        message = ''Too many requests'', skipIps = [] \<rparr>
      ''X'' [1000, 1001, 1002, 1003, 1004, 1005] Map.empty))
     = [True, True, True, True, True, False]
   \<and> map remaining (fst (requests
      \<lparr> maxRequests = 5, windowMs = 60000, skipSuccessfulRequests = False,
        message = ''Too many requests'', skipIps = [] \<rparr>
      ''X'' [1000, 1001, 1002, 1003, 1004, 1005] Map.empty))
     = [4, 3, 2, 1, 0, 0]
   \<and> length (filter allowed (fst (requests
      \<lparr> maxRequests = 5, windowMs = 60000, skipSuccessfulRequests = False,
        message = ''Too many requests'', skipIps = [] \<rparr>
      ''X'' [1000, 1001, 1002, 1003, 1004, 1005] Map.empty))) = 5"
  using check_contract
    [of "\<lparr> maxRequests = 5, windowMs = 60000, skipSuccessfulRequests = False,
           message = ''Too many requests'', skipIps = [] \<rparr>"
        1000 "''X''" Map.empty "[1001, 1002, 1003, 1004, 1005]"]
  by (simp add: check_then_increment_def check_def increment_def)

text \<open>
  C9. Two \<^verbatim>\<open>check\<close> calls for one key at one clock reading, with no \<^verbatim>\<open>increment\<close>
  between them, return the same result and leave the same records: the second call changes
  nothing. After a \<^verbatim>\<open>check\<close> the record's count is the count it had, or 0 when the
  record was created or replaced; \<^verbatim>\<open>check\<close> never counts a request. \<^verbatim>\<open>increment\<close>
  is what raises the count of an existing record, by one.
\<close>

theorem check_idempotent:
  "check options now ip (snd (check options now ip recs)) = check options now ip recs
   \<and> map_option count (snd (check options now ip recs) ip) =
       Some (case recs ip of None \<Rightarrow> 0 | Some r \<Rightarrow> if resetTime r < now then 0 else count r)
   \<and> map_option count (increment ip recs ip) = map_option (\<lambda>r. count r + 1) (recs ip)"
  by (auto simp: check_def increment_def Let_def split: option.splits)

section \<open>Token refresh skew\<close>

text \<open>
  C6. \<^verbatim>\<open>shouldRefreshToken\<close> is true exactly when \<open>expiresAt - now\<close> is less than five
  minutes, 300000 milliseconds; with exactly five minutes left it is false.
\<close>

theorem shouldRefreshToken_iff:
  "shouldRefreshToken now session = (expiresAt session - now < 5 * 60 * 1000)
   \<and> shouldRefreshToken now session = (expiresAt session < now + 300000)
   \<and> \<not> shouldRefreshToken now (session\<lparr> expiresAt := now + 300000 \<rparr>)"
  by (auto simp: shouldRefreshToken_def)

section \<open>OAuth transaction cookie: properties\<close>

lemma parseOAuthState_fresh:
  "parseOAuthState JSON_parse now stateData = Some oauthData \<Longrightarrow>
   now - timestamp oauthData < 600000 \<and> isValidState (state oauthData)"
  by (auto simp: parseOAuthState_def isValidTimestamp_def
           split: option.splits json.splits if_splits)

text \<open>
  C7. A transaction cookie whose timestamp lies more than ten minutes (600000 ms) before
  the clock reading is rejected: \<^verbatim>\<open>isValidTimestamp\<close> is false, \<^verbatim>\<open>parseOAuthState\<close>
  returns \<^verbatim>\<open>null\<close>, and the callback answers \<^verbatim>\<open>invalid_request\<close> whatever state value
  is presented, the cookie's own state included.
\<close>

theorem stale_transaction_rejected:
  assumes "JSON_parse stateData = Some (JObj props)"
      and "map_of props ''timestamp'' = Some (JNum ts)"
      and "10 * 60 * 1000 < now - ts"
  shows "\<not> isValidTimestamp now ts
       \<and> parseOAuthState JSON_parse now stateData = None
       \<and> callback_checks JSON_parse now code state_param (Some stateData) = Inl invalid_request"
proof -
  have v: "\<not> isValidTimestamp now ts" using assms(3) by (simp add: isValidTimestamp_def)
  have p: "parseOAuthState JSON_parse now stateData = None"
    using assms(1,2) v
    by (simp add: parseOAuthState_def split: option.splits json.splits)
  show ?thesis using v p by (simp add: callback_checks_def)
qed

text \<open>
  A cookie written at time 1000 and presented with its own state at time 601001 is
  rejected; two milliseconds before the ten minutes are over it is still accepted.
\<close>

theorem stale_transaction_rejected_witness:
  "(let parse = (\<lambda>s. if s = ''cookie'' then
        Some (JObj [(''state'', JStr ''0123456789abcdef''), (''codeVerifier'', JStr ''v''),
                    (''timestamp'', JNum 1000)]) else None)
    in parseOAuthState parse 601001 ''cookie'' = None
     \<and> callback_checks parse 601001 (Some ''code'') (Some ''0123456789abcdef'') (Some ''cookie'')
         = Inl invalid_request
     \<and> parseOAuthState parse 600999 ''cookie'' =
         Some \<lparr> state = ''0123456789abcdef'', codeVerifier = ''v'', timestamp = 1000 \<rparr>)"
  using stale_transaction_rejected
    [of "\<lambda>s. if s = ''cookie'' then
        Some (JObj [(''state'', JStr ''0123456789abcdef''), (''codeVerifier'', JStr ''v''),
                    (''timestamp'', JNum 1000)]) else None" "''cookie''"
        "[(''state'', JStr ''0123456789abcdef''), (''codeVerifier'', JStr ''v''),
                    (''timestamp'', JNum 1000)]" 1000 601001 "Some ''code''" "Some ''0123456789abcdef''"]
  by (simp add: parseOAuthState_def isValidState_def isValidTimestamp_def)

text \<open>
  C10. The freshness check is one-sided: \<^verbatim>\<open>isValidTimestamp\<close> is true for every
  timestamp later than the clock reading, so a cookie that is well-formed otherwise and
  carries a timestamp of the future, however far, passes \<^verbatim>\<open>parseOAuthState\<close> and, with
  the matching state, the checks of the callback.
\<close>

theorem future_timestamp_accepted:
  assumes "now < ts"
      and "JSON_parse stateData = Some (JObj props)"
      and "map_of props ''state'' = Some (JStr st)"
      and "map_of props ''codeVerifier'' = Some (JStr cv)"
      and "map_of props ''timestamp'' = Some (JNum ts)"
      and "isValidState st"
      and "stateData \<noteq> []" and "code \<noteq> []"
  shows "isValidTimestamp now ts
       \<and> parseOAuthState JSON_parse now stateData =
           Some \<lparr> state = st, codeVerifier = cv, timestamp = ts \<rparr>
       \<and> callback_checks JSON_parse now (Some code) (Some st) (Some stateData) =
           Inr \<lparr> state = st, codeVerifier = cv, timestamp = ts \<rparr>"
proof -
  have v: "isValidTimestamp now ts" using assms(1) by (simp add: isValidTimestamp_def)
  have p: "parseOAuthState JSON_parse now stateData =
           Some \<lparr> state = st, codeVerifier = cv, timestamp = ts \<rparr>"
    using assms(2-6) v by (simp add: parseOAuthState_def)
  have ne: "st \<noteq> []"
    using assms(6) by (auto simp: isValidState_def)
  show ?thesis using v p ne assms(7,8) by (simp add: callback_checks_def falsy_def)
qed

text \<open>At time 1000 a cookie stamped with the first day of the year 2100 is accepted.\<close>

theorem future_timestamp_accepted_witness:
  "(let parse = (\<lambda>s. if s = ''cookie'' then
        Some (JObj [(''state'', JStr ''0123456789abcdef''), (''codeVerifier'', JStr ''v''),
                    (''timestamp'', JNum 4102444800000)]) else None)
    in isValidTimestamp 1000 4102444800000
     \<and> parseOAuthState parse 1000 ''cookie'' =
         Some \<lparr> state = ''0123456789abcdef'', codeVerifier = ''v'', timestamp = 4102444800000 \<rparr>
     \<and> callback_checks parse 1000 (Some ''code'') (Some ''0123456789abcdef'') (Some ''cookie'') =
         Inr \<lparr> state = ''0123456789abcdef'', codeVerifier = ''v'', timestamp = 4102444800000 \<rparr>)"
  using future_timestamp_accepted
    [of 1000 4102444800000 "\<lambda>s. if s = ''cookie'' then
        Some (JObj [(''state'', JStr ''0123456789abcdef''), (''codeVerifier'', JStr ''v''),
                    (''timestamp'', JNum 4102444800000)]) else None" "''cookie''"
        "[(''state'', JStr ''0123456789abcdef''), (''codeVerifier'', JStr ''v''),
                    (''timestamp'', JNum 4102444800000)]" "''0123456789abcdef''" "''v''" "''code''"]
  by (simp add: isValidState_def)

section \<open>Session stores: properties\<close>

subsection \<open>Reading a session\<close>

lemma pg_getSession_Some:
  "PostgresSessionStore_getSession now sid tbl = Some s \<Longrightarrow> now < expiresAt s \<and> sessionId s = sid"
  by (auto simp: PostgresSessionStore_getSession_def split: option.splits if_splits)

lemma pg_getSession_expired:
  "tbl sid = Some row \<Longrightarrow> expires_at row \<le> now \<Longrightarrow> PostgresSessionStore_getSession now sid tbl = None"
  by (simp add: PostgresSessionStore_getSession_def)

lemma redis_deleteSession_snd:
  "snd (RedisSessionStore_deleteSession store now sid db) = db(getKey store sid := None)"
  by (simp add: RedisSessionStore_deleteSession_def redis_del_def split: prod.splits)

lemma redis_getSession_Some:
  "RedisSessionStore_getSession store now sid db = (Some s, db') \<Longrightarrow>
     \<not> expiresAt s < now \<and> db' = db \<and>
     redis_get now (getKey store sid) db = Some (SessionJSON s)"
  by (auto simp: RedisSessionStore_getSession_def JSON_parse_session_def
           split: option.splits if_splits redis_value.splits)

lemma redis_getSession_expired:
  "redis_get now (getKey store sid) db = Some (SessionJSON s) \<Longrightarrow> expiresAt s < now \<Longrightarrow>
   RedisSessionStore_getSession store now sid db = (None, db(getKey store sid := None))"
  by (simp add: RedisSessionStore_getSession_def redis_deleteSession_snd JSON_parse_session_def)


text \<open>What the in-memory store does: a plain lookup, whatever \<open>expiresAt\<close> says.\<close>

lemma MemorySessionStore_getSession_plain:
  "sessions sid = Some session \<Longrightarrow>
   getSession MemorySessionStore now sid sessions = (Inr (Some session), sessions)"
  by (simp add: MemorySessionStore_def MemorySessionStore_getSession_def)

text \<open>
  C1, as the relational and the key-value store have it. The relational store never
  returns a session with \<open>expiresAt \<le> now\<close>: its query selects only rows with
  \<open>expires_at > now\<close>; for a stored row that has expired it answers "not found" and leaves
  the row in the table, where it stays until \<^verbatim>\<open>cleanupExpiredSessions\<close> runs. The
  key-value store never returns a session with \<open>expiresAt < now\<close>: when it reads one, it
  answers "not found" and deletes the key. Neither needs a cleanup call first.
\<close>

theorem getSession_hides_expired:
  "(PostgresSessionStore_getSession now sid tbl = Some s \<longrightarrow> now < expiresAt s)
   \<and> (tbl sid = Some row \<and> expires_at row \<le> now \<longrightarrow>
        getSession PostgresSessionStore now sid \<lparr> table = tbl, reachable = True \<rparr> =
          (Inr None, \<lparr> table = tbl, reachable = True \<rparr>))
   \<and> (RedisSessionStore_getSession store now sid db = (Some s', db') \<longrightarrow> \<not> expiresAt s' < now)
   \<and> (redis_get now (getKey store sid) db = Some (SessionJSON s'') \<and> expiresAt s'' < now \<longrightarrow>
        RedisSessionStore_getSession store now sid db = (None, db(getKey store sid := None)))"
  using pg_getSession_Some [of now sid tbl s] pg_getSession_expired [of tbl sid row now]
    redis_getSession_Some [of store now sid db s' db']
    redis_getSession_expired [of now store sid db s'']
  by (simp add: PostgresSessionStore_def)


text \<open>
  A row and a key that expire at 1000 and 1500: both are returned before that time; after it
  the relational store answers "not found" and keeps the row, the key-value store answers
  "not found" and drops the key.
\<close>

theorem getSession_hides_expired_witness:
  "PostgresSessionStore_getSession 500 ''s1''
     [''s1'' \<mapsto> \<lparr> user_id = ''alice'', access_token = Some ''at'', refresh_token = None,
                  id_token = None, expires_at = 1000 \<rparr>]
     = Some \<lparr> sessionId = ''s1'', userId = ''alice'', accessToken = Some ''at'',
              refreshToken = None, idToken = None, expiresAt = 1000 \<rparr>
   \<and> getSession PostgresSessionStore 2000 ''s1''
       \<lparr> table = [''s1'' \<mapsto> \<lparr> user_id = ''alice'', access_token = Some ''at'', refresh_token = None,
                  id_token = None, expires_at = 1000 \<rparr>], reachable = True \<rparr>
     = (Inr None,
        \<lparr> table = [''s1'' \<mapsto> \<lparr> user_id = ''alice'', access_token = Some ''at'', refresh_token = None,
                  id_token = None, expires_at = 1000 \<rparr>], reachable = True \<rparr>)
   \<and> RedisSessionStore_getSession \<lparr> prefix = ''session:'', defaultTTL = 86400 \<rparr> 500 ''s1''
        [''session:s1'' \<mapsto>
           \<lparr> payload = SessionJSON \<lparr> sessionId = ''s1'', userId = ''alice'', accessToken = Some ''at'',
               refreshToken = None, idToken = None, expiresAt = 1500 \<rparr>,
             expires = 61000 \<rparr>]
     = (Some \<lparr> sessionId = ''s1'', userId = ''alice'', accessToken = Some ''at'',
               refreshToken = None, idToken = None, expiresAt = 1500 \<rparr>,
        [''session:s1'' \<mapsto>
           \<lparr> payload = SessionJSON \<lparr> sessionId = ''s1'', userId = ''alice'', accessToken = Some ''at'',
               refreshToken = None, idToken = None, expiresAt = 1500 \<rparr>,
             expires = 61000 \<rparr>])
   \<and> RedisSessionStore_getSession \<lparr> prefix = ''session:'', defaultTTL = 86400 \<rparr> 2000 ''s1''
        [''session:s1'' \<mapsto>
           \<lparr> payload = SessionJSON \<lparr> sessionId = ''s1'', userId = ''alice'', accessToken = Some ''at'',
               refreshToken = None, idToken = None, expiresAt = 1500 \<rparr>,
             expires = 61000 \<rparr>]
     = (None, Map.empty)"
  using getSession_hides_expired
    [where now = 500 and sid = "''s1''"
       and tbl = "[''s1'' \<mapsto> \<lparr> user_id = ''alice'', access_token = Some ''at'',
                     refresh_token = None, id_token = None, expires_at = 1000 \<rparr>]"
       and s = "\<lparr> sessionId = ''s1'', userId = ''alice'', accessToken = Some ''at'',
                  refreshToken = None, idToken = None, expiresAt = 1000 \<rparr>"
       and store = "\<lparr> prefix = ''session:'', defaultTTL = 86400 \<rparr>"
       and db = "[''session:s1'' \<mapsto>
           \<lparr> payload = SessionJSON \<lparr> sessionId = ''s1'', userId = ''alice'', accessToken = Some ''at'',
               refreshToken = None, idToken = None, expiresAt = 1500 \<rparr>,
             expires = 61000 \<rparr>]"
       and s' = "\<lparr> sessionId = ''s1'', userId = ''alice'', accessToken = Some ''at'',
                  refreshToken = None, idToken = None, expiresAt = 1500 \<rparr>"
       and db' = "[''session:s1'' \<mapsto>
           \<lparr> payload = SessionJSON \<lparr> sessionId = ''s1'', userId = ''alice'', accessToken = Some ''at'',
               refreshToken = None, idToken = None, expiresAt = 1500 \<rparr>,
             expires = 61000 \<rparr>]"]
    getSession_hides_expired
    [where now = 2000 and sid = "''s1''"
       and tbl = "[''s1'' \<mapsto> \<lparr> user_id = ''alice'', access_token = Some ''at'',
                     refresh_token = None, id_token = None, expires_at = 1000 \<rparr>]"
       and row = "\<lparr> user_id = ''alice'', access_token = Some ''at'',
                     refresh_token = None, id_token = None, expires_at = 1000 \<rparr>"
       and store = "\<lparr> prefix = ''session:'', defaultTTL = 86400 \<rparr>"
       and db = "[''session:s1'' \<mapsto>
           \<lparr> payload = SessionJSON \<lparr> sessionId = ''s1'', userId = ''alice'', accessToken = Some ''at'',
               refreshToken = None, idToken = None, expiresAt = 1500 \<rparr>,
             expires = 61000 \<rparr>]"
       and s'' = "\<lparr> sessionId = ''s1'', userId = ''alice'', accessToken = Some ''at'',
                  refreshToken = None, idToken = None, expiresAt = 1500 \<rparr>"]
  by (simp add: PostgresSessionStore_getSession_def
        RedisSessionStore_getSession_def redis_get_def getKey_def JSON_parse_session_def)

text \<open>
  The claim as it was stated fails on the two stores it names. At time 2000 the in-memory
  store returns the stored session that expired at 1000; the relational store answers
  "not found" for its row that expired at 1000 and the row is still in the table.
\<close>

theorem getSession_expired_counterexample:
  "MemorySessionStore_getSession ''s1''
     [''s1'' \<mapsto> \<lparr> sessionId = ''s1'', userId = ''alice'', accessToken = Some ''at'',
                  refreshToken = None, idToken = None, expiresAt = 1000 \<rparr>]
     = Some \<lparr> sessionId = ''s1'', userId = ''alice'', accessToken = Some ''at'',
              refreshToken = None, idToken = None, expiresAt = 1000 \<rparr>
   \<and> expiresAt \<lparr> sessionId = ''s1'', userId = ''alice'', accessToken = Some ''at'',
                  refreshToken = None, idToken = None, expiresAt = 1000 \<rparr> < 2000
   \<and> getSession MemorySessionStore 2000 ''s1''
       [''s1'' \<mapsto> \<lparr> sessionId = ''s1'', userId = ''alice'', accessToken = Some ''at'',
                  refreshToken = None, idToken = None, expiresAt = 1000 \<rparr>]
     = (Inr (Some \<lparr> sessionId = ''s1'', userId = ''alice'', accessToken = Some ''at'',
                     refreshToken = None, idToken = None, expiresAt = 1000 \<rparr>),
        [''s1'' \<mapsto> \<lparr> sessionId = ''s1'', userId = ''alice'', accessToken = Some ''at'',
                  refreshToken = None, idToken = None, expiresAt = 1000 \<rparr>])
   \<and> getSession PostgresSessionStore 2000 ''s1''
       \<lparr> table = [''s1'' \<mapsto> \<lparr> user_id = ''alice'', access_token = Some ''at'', refresh_token = None,
                  id_token = None, expires_at = 1000 \<rparr>], reachable = True \<rparr>
     = (Inr None,
        \<lparr> table = [''s1'' \<mapsto> \<lparr> user_id = ''alice'', access_token = Some ''at'', refresh_token = None,
                  id_token = None, expires_at = 1000 \<rparr>], reachable = True \<rparr>)"
  by (simp add: MemorySessionStore_getSession_def MemorySessionStore_def PostgresSessionStore_def
        PostgresSessionStore_getSession_def)


subsection \<open>Updating a session\<close>

















section \<open>Session middleware: properties\<close>

lemma authMiddleware_lookup_failed:
  assumes "\<not> falsy (cookies event ''session_id'')"
      and "getSession sessionStore now (the (cookies event ''session_id'')) st = (Inl e, st1)"
  shows "authMiddleware sessionStore fetch now event st = Thrown e st1"
  using assms by (simp add: authMiddleware_def BFFAuthService_getSession_def)

lemma authMiddleware_lookup_ok:
  assumes "getSession sessionStore now (the (cookies event ''session_id'')) st = (Inr r, st1)"
  shows "\<exists>event' st'. authMiddleware sessionStore fetch now event st = Resolved event' st'"
  using assms
  by (auto simp: authMiddleware_def BFFAuthService_getSession_def
             BFFAuthService_updateSession_def Let_def
           split: option.splits sum.splits prod.splits bool.splits)

lemma authMiddleware_no_cookie:
  assumes "falsy (cookies event ''session_id'')"
  shows "authMiddleware sessionStore fetch now event st = Resolved (anonymous event) st"
  using assms by (simp add: authMiddleware_def)

lemma authMiddleware_throws_iff:
  "(\<exists>e st'. authMiddleware sessionStore fetch now event st = Thrown e st') =
   (\<not> falsy (cookies event ''session_id'') \<and>
    (\<exists>e st1. getSession sessionStore now (the (cookies event ''session_id'')) st = (Inl e, st1)))"
proof (cases "falsy (cookies event ''session_id'')")
  case True
  then show ?thesis by (simp add: authMiddleware_no_cookie)
next
  case False
  obtain r st1 where g: "getSession sessionStore now (the (cookies event ''session_id'')) st = (r, st1)"
    by (cases "getSession sessionStore now (the (cookies event ''session_id'')) st")
  show ?thesis
  proof (cases r)
    case (Inl e)
    then show ?thesis using False g authMiddleware_lookup_failed [OF False, of sessionStore now st e st1 fetch]
      by auto
  next
    case (Inr v)
    then obtain event' st' where "authMiddleware sessionStore fetch now event st = Resolved event' st'"
      using g authMiddleware_lookup_ok [of sessionStore now event st v st1 fetch] by auto
    then show ?thesis using g Inr by simp
  qed
qed

lemma authMiddleware_update_failed:
  assumes "\<not> falsy (cookies event ''session_id'')"
      and "getSession sessionStore now (the (cookies event ''session_id'')) st = (Inr (Some session), st1)"
      and "\<not> expiresAt session < now"
      and "shouldRefreshToken now session" and "\<not> falsy (refreshToken session)"
      and "BFFAuthService_refreshToken fetch (the (refreshToken session)) = Inr newTokens"
      and "updateSession sessionStore now (the (cookies event ''session_id''))
             (refreshed now session newTokens) st1 = (Inl e, st2)"
  shows "authMiddleware sessionStore fetch now event st = Resolved (clear_session event) st2"
  using assms
  by (simp add: authMiddleware_def BFFAuthService_getSession_def BFFAuthService_updateSession_def)

lemma authMiddleware_reread_failed:
  assumes "\<not> falsy (cookies event ''session_id'')"
      and "getSession sessionStore now (the (cookies event ''session_id'')) st = (Inr (Some session), st1)"
      and "\<not> expiresAt session < now"
      and "shouldRefreshToken now session" and "\<not> falsy (refreshToken session)"
      and "BFFAuthService_refreshToken fetch (the (refreshToken session)) = Inr newTokens"
      and "updateSession sessionStore now (the (cookies event ''session_id''))
             (refreshed now session newTokens) st1 = (Inr True, st2)"
      and "getSession sessionStore now (the (cookies event ''session_id'')) st2 = (Inl e, st3)"
  shows "authMiddleware sessionStore fetch now event st = Resolved (clear_session event) st3"
  using assms
  by (simp add: authMiddleware_def BFFAuthService_getSession_def BFFAuthService_updateSession_def)


text \<open>
  C2, as the middleware has it. When the session is found and has not expired, and it has no
  refresh token (none, or the empty string), the middleware attempts no refresh, whether
  one is due or not: it leaves the cookie in place and hands on the session's identity,
  \<open>userId\<close> and \<open>sessionId\<close>, and its access token, as for a session that needs no
  refresh.
\<close>

theorem no_refresh_token_keeps_identity:
  assumes "\<not> falsy (cookies event ''session_id'')"
      and "getSession sessionStore now (the (cookies event ''session_id'')) st = (Inr (Some session), st1)"
      and "\<not> expiresAt session < now"
      and "falsy (refreshToken session)"
  shows "authMiddleware sessionStore fetch now event st =
           Resolved (event\<lparr> locals_user := Some \<lparr> user_userId = userId session,
                                                 user_sessionId = sessionId session \<rparr>,
                            locals_accessToken := accessToken session \<rparr>) st1"
  using assms by (simp add: authMiddleware_def BFFAuthService_getSession_def inject_def)


text \<open>A session without a refresh token that expires in 100 seconds, so that a refresh is due.\<close>

theorem no_refresh_token_keeps_identity_witness:
  "shouldRefreshToken 0 \<lparr> sessionId = ''s1'', userId = ''alice'', accessToken = Some ''at'',
        refreshToken = None, idToken = None, expiresAt = 100000 \<rparr>
   \<and> authMiddleware MemorySessionStore provider_unreachable 0
       \<lparr> cookies = [''session_id'' \<mapsto> ''s1''], locals_user = None, locals_accessToken = None \<rparr>
       [''s1'' \<mapsto> \<lparr> sessionId = ''s1'', userId = ''alice'', accessToken = Some ''at'',
                    refreshToken = None, idToken = None, expiresAt = 100000 \<rparr>]
     = Resolved
         \<lparr> cookies = [''session_id'' \<mapsto> ''s1''],
           locals_user = Some \<lparr> user_userId = ''alice'', user_sessionId = ''s1'' \<rparr>,
           locals_accessToken = Some ''at'' \<rparr>
         [''s1'' \<mapsto> \<lparr> sessionId = ''s1'', userId = ''alice'', accessToken = Some ''at'',
                    refreshToken = None, idToken = None, expiresAt = 100000 \<rparr>]"
  using no_refresh_token_keeps_identity
    [of "\<lparr> cookies = [''session_id'' \<mapsto> ''s1''], locals_user = None, locals_accessToken = None \<rparr>"
        MemorySessionStore 0
        "[''s1'' \<mapsto> \<lparr> sessionId = ''s1'', userId = ''alice'', accessToken = Some ''at'',
                    refreshToken = None, idToken = None, expiresAt = 100000 \<rparr>]"
        "\<lparr> sessionId = ''s1'', userId = ''alice'', accessToken = Some ''at'',
                    refreshToken = None, idToken = None, expiresAt = 100000 \<rparr>"
        "[''s1'' \<mapsto> \<lparr> sessionId = ''s1'', userId = ''alice'', accessToken = Some ''at'',
                    refreshToken = None, idToken = None, expiresAt = 100000 \<rparr>]"
        provider_unreachable]
  by (simp add: falsy_def MemorySessionStore_def MemorySessionStore_getSession_def
        shouldRefreshToken_def)


text \<open>
  The claim as it was stated fails: for this request the session is found, has not expired,
  is due for a refresh and has no refresh token, and the middleware hands on the identity
  of \<open>alice\<close> with the cookie still in place, not the cleared, anonymous event.
\<close>

theorem no_refresh_token_counterexample:
  "cookies \<lparr> cookies = [''session_id'' \<mapsto> ''s1''], locals_user = None,
             locals_accessToken = None \<rparr> ''session_id'' = Some ''s1''
   \<and> getSession MemorySessionStore 0 ''s1''
       [''s1'' \<mapsto> \<lparr> sessionId = ''s1'', userId = ''alice'', accessToken = Some ''at'',
                    refreshToken = None, idToken = None, expiresAt = 100000 \<rparr>]
     = (Inr (Some \<lparr> sessionId = ''s1'', userId = ''alice'', accessToken = Some ''at'',
                    refreshToken = None, idToken = None, expiresAt = 100000 \<rparr>),
        [''s1'' \<mapsto> \<lparr> sessionId = ''s1'', userId = ''alice'', accessToken = Some ''at'',
                    refreshToken = None, idToken = None, expiresAt = 100000 \<rparr>])
   \<and> \<not> expiresAt \<lparr> sessionId = ''s1'', userId = ''alice'', accessToken = Some ''at'',
                    refreshToken = None, idToken = None, expiresAt = 100000 \<rparr> < 0
   \<and> shouldRefreshToken 0 \<lparr> sessionId = ''s1'', userId = ''alice'', accessToken = Some ''at'',
                    refreshToken = None, idToken = None, expiresAt = 100000 \<rparr>
   \<and> refreshToken \<lparr> sessionId = ''s1'', userId = ''alice'', accessToken = Some ''at'',
                    refreshToken = None, idToken = None, expiresAt = 100000 \<rparr> = None
   \<and> authMiddleware MemorySessionStore provider_unreachable 0
       \<lparr> cookies = [''session_id'' \<mapsto> ''s1''], locals_user = None, locals_accessToken = None \<rparr>
       [''s1'' \<mapsto> \<lparr> sessionId = ''s1'', userId = ''alice'', accessToken = Some ''at'',
                    refreshToken = None, idToken = None, expiresAt = 100000 \<rparr>]
     = Resolved
         \<lparr> cookies = [''session_id'' \<mapsto> ''s1''],
           locals_user = Some \<lparr> user_userId = ''alice'', user_sessionId = ''s1'' \<rparr>,
           locals_accessToken = Some ''at'' \<rparr>
         [''s1'' \<mapsto> \<lparr> sessionId = ''s1'', userId = ''alice'', accessToken = Some ''at'',
                    refreshToken = None, idToken = None, expiresAt = 100000 \<rparr>]
   \<and> authMiddleware MemorySessionStore provider_unreachable 0
       \<lparr> cookies = [''session_id'' \<mapsto> ''s1''], locals_user = None, locals_accessToken = None \<rparr>
       [''s1'' \<mapsto> \<lparr> sessionId = ''s1'', userId = ''alice'', accessToken = Some ''at'',
                    refreshToken = None, idToken = None, expiresAt = 100000 \<rparr>]
     \<noteq> Resolved
         (clear_session \<lparr> cookies = [''session_id'' \<mapsto> ''s1''], locals_user = None,
                          locals_accessToken = None \<rparr>)
         [''s1'' \<mapsto> \<lparr> sessionId = ''s1'', userId = ''alice'', accessToken = Some ''at'',
                    refreshToken = None, idToken = None, expiresAt = 100000 \<rparr>]"
  by (simp add: authMiddleware_def BFFAuthService_getSession_def MemorySessionStore_def
        MemorySessionStore_getSession_def falsy_def shouldRefreshToken_def inject_def
        clear_session_def Let_def)


text \<open>
  C3, as the middleware has it. An error leaves the middleware exactly when the request
  carries a session identifier and the first \<^verbatim>\<open>getSession\<close> of the store fails: that
  call stands outside the \<^verbatim>\<open>try\<close> and its error goes on to the caller. A failure of
  the store inside the refresh, in \<^verbatim>\<open>updateSession\<close> or in the second
  \<^verbatim>\<open>getSession\<close>, is caught: the cookie is cleared and the request goes on without an
  identity.
\<close>

theorem store_failure_handling:
  "((\<exists>e st'. authMiddleware sessionStore fetch now event st = Thrown e st') =
    (\<not> falsy (cookies event ''session_id'') \<and>
     (\<exists>e st1. getSession sessionStore now (the (cookies event ''session_id'')) st = (Inl e, st1))))
   \<and> (\<not> falsy (cookies event ''session_id'') \<and>
      getSession sessionStore now (the (cookies event ''session_id'')) st = (Inl e, st1) \<longrightarrow>
      authMiddleware sessionStore fetch now event st = Thrown e st1)
   \<and> (\<not> falsy (cookies event ''session_id'') \<and>
      getSession sessionStore now (the (cookies event ''session_id'')) st = (Inr (Some session), st1) \<and>
      \<not> expiresAt session < now \<and> shouldRefreshToken now session \<and>
      \<not> falsy (refreshToken session) \<and>
      BFFAuthService_refreshToken fetch (the (refreshToken session)) = Inr newTokens \<and>
      updateSession sessionStore now (the (cookies event ''session_id''))
        (refreshed now session newTokens) st1 = (Inl e, st2) \<longrightarrow>
      authMiddleware sessionStore fetch now event st = Resolved (clear_session event) st2)
   \<and> (\<not> falsy (cookies event ''session_id'') \<and>
      getSession sessionStore now (the (cookies event ''session_id'')) st = (Inr (Some session), st1) \<and>
      \<not> expiresAt session < now \<and> shouldRefreshToken now session \<and>
      \<not> falsy (refreshToken session) \<and>
      BFFAuthService_refreshToken fetch (the (refreshToken session)) = Inr newTokens \<and>
      updateSession sessionStore now (the (cookies event ''session_id''))
        (refreshed now session newTokens) st1 = (Inr True, st2) \<and>
      getSession sessionStore now (the (cookies event ''session_id'')) st2 = (Inl e, st3) \<longrightarrow>
      authMiddleware sessionStore fetch now event st = Resolved (clear_session event) st3)"
  using authMiddleware_throws_iff [of sessionStore fetch now event st]
    authMiddleware_lookup_failed [of event sessionStore now st e st1 fetch]
    authMiddleware_update_failed [of event sessionStore now st session st1 fetch newTokens e st2]
    authMiddleware_reread_failed [of event sessionStore now st session st1 fetch newTokens st2 e st3]
  by blast


text \<open>
  A database that cannot be reached at the first lookup; a store whose update throws; a
  store that loses its database between the update and the second lookup.
\<close>

theorem store_failure_handling_witness:
  "authMiddleware PostgresSessionStore provider_fixture 0 event_fixture
       \<lparr> table = Map.empty, reachable = False \<rparr>
     = Thrown query_failed \<lparr> table = Map.empty, reachable = False \<rparr>
   \<and> authMiddleware store_update_fails provider_fixture 0 event_fixture [''s1'' \<mapsto> session_fixture]
     = Resolved (clear_session event_fixture) [''s1'' \<mapsto> session_fixture]
   \<and> authMiddleware store_lost_after_update provider_fixture 0 event_fixture
       \<lparr> table = PostgresSessionStore_createSession session_fixture Map.empty, reachable = True \<rparr>
     = Resolved (clear_session event_fixture)
       \<lparr> table = PostgresSessionStore_createSession session_fixture Map.empty, reachable = False \<rparr>"
  using store_failure_handling
    [where sessionStore = PostgresSessionStore and fetch = provider_fixture and now = 0
       and event = event_fixture and st = "\<lparr> table = Map.empty, reachable = False \<rparr>"
       and e = query_failed and ?st1.0 = "\<lparr> table = Map.empty, reachable = False \<rparr>"]
    store_failure_handling
    [where sessionStore = store_update_fails and fetch = provider_fixture and now = 0
       and event = event_fixture and st = "[''s1'' \<mapsto> session_fixture]"
       and e = "Error ''write failed''" and ?st1.0 = "[''s1'' \<mapsto> session_fixture]"
       and session = session_fixture and newTokens = tokens_fixture
       and ?st2.0 = "[''s1'' \<mapsto> session_fixture]"]
    store_failure_handling
    [where sessionStore = store_lost_after_update and fetch = provider_fixture and now = 0
       and event = event_fixture
       and st = "\<lparr> table = PostgresSessionStore_createSession session_fixture Map.empty,
                  reachable = True \<rparr>"
       and e = query_failed
       and ?st1.0 = "\<lparr> table = PostgresSessionStore_createSession session_fixture Map.empty,
                  reachable = True \<rparr>"
       and session = session_fixture and newTokens = tokens_fixture
       and ?st2.0 = "\<lparr> table = PostgresSessionStore_createSession session_fixture Map.empty,
                  reachable = False \<rparr>"
       and ?st3.0 = "\<lparr> table = PostgresSessionStore_createSession session_fixture Map.empty,
                  reachable = False \<rparr>"]
  by (simp add: falsy_def event_fixture_def session_fixture_def provider_fixture_def
        store_update_fails_def store_lost_after_update_def PostgresSessionStore_def
        MemorySessionStore_def MemorySessionStore_getSession_def
        PostgresSessionStore_getSession_def PostgresSessionStore_createSession_def
        shouldRefreshToken_def BFFAuthService_refreshToken_def)


text \<open>
  The claim as it was stated fails: with a session cookie and a database that cannot be
  reached, the error of the first lookup leaves the middleware.
\<close>

theorem store_failure_counterexample:
  "cookies \<lparr> cookies = [''session_id'' \<mapsto> ''s1''], locals_user = None,
             locals_accessToken = None \<rparr> ''session_id'' = Some ''s1''
   \<and> getSession PostgresSessionStore 0 ''s1'' \<lparr> table = Map.empty, reachable = False \<rparr>
     = (Inl query_failed, \<lparr> table = Map.empty, reachable = False \<rparr>)
   \<and> authMiddleware PostgresSessionStore provider_unreachable 0
       \<lparr> cookies = [''session_id'' \<mapsto> ''s1''], locals_user = None, locals_accessToken = None \<rparr>
       \<lparr> table = Map.empty, reachable = False \<rparr>
     = Thrown query_failed \<lparr> table = Map.empty, reachable = False \<rparr>"
  by (simp add: authMiddleware_def BFFAuthService_getSession_def PostgresSessionStore_def falsy_def
        Let_def)


section \<open>PKCE: properties\<close>

lemma length_base64url: "length (base64url bs) = (4 * length bs + 2) div 3"
  by (induction bs rule: base64url.induct) simp_all

lemma sextet_in_alphabet: "sextet v \<in> set base64url_alphabet"
proof -
  have "unat (v AND 63) \<le> unat (63 :: byte)"
    by (rule word_and_le1 [THEN word_le_nat_alt [THEN iffD1]])
  then have "unat (v AND 63) < length base64url_alphabet"
    by (simp add: base64url_alphabet_def)
  then show ?thesis unfolding sextet_def by (rule nth_mem)
qed

lemma base64url_chars: "set (base64url bs) \<subseteq> set base64url_alphabet"
  by (induction bs rule: base64url.induct) (simp_all add: sextet_in_alphabet)

lemma length_sha256_round: "length v = 8 \<Longrightarrow> length (sha256_round v kw) = 8"
proof -
  assume "length v = 8"
  then obtain a b c d e f g h where "v = [a, b, c, d, e, f, g, h]"
    by (auto simp: length_Suc_conv eval_nat_numeral)
  then show ?thesis by (cases kw) (simp add: Let_def)
qed

lemma length_foldl_round: "length v = 8 \<Longrightarrow> length (foldl sha256_round v kws) = 8"
  by (induction kws arbitrary: v) (simp_all add: length_sha256_round)

lemma length_compress: "length hs = 8 \<Longrightarrow> length (compress hs block) = 8"
  by (simp add: compress_def length_foldl_round)

lemma length_blocks: "length hs = 8 \<Longrightarrow> length (blocks hs ws) = 8"
proof (induction hs ws rule: blocks.induct)
  case (1 hs ws)
  show ?case
  proof (cases "length ws < 16")
    case True
    then show ?thesis using "1.prems" by (subst blocks.simps) simp
  next
    case False
    have "length (blocks (compress hs (take 16 ws)) (drop 16 ws)) = 8"
      using False "1.prems" by (intro "1.IH") (simp_all add: length_compress)
    then show ?thesis using False by (subst blocks.simps) simp
  qed
qed

lemma length_concat_be_bytes: "length (concat (map be_bytes ws)) = 4 * length ws"
  by (induction ws) (simp_all add: be_bytes_def)

lemma length_sha256: "length (sha256 m) = 32"
  by (simp add: sha256_def length_concat_be_bytes length_blocks H256_def)


text \<open>
  C5. The pair \<^verbatim>\<open>generatePKCE\<close> returns is the \<^verbatim>\<open>base64url\<close> text of the 32 random
  bytes and the challenge recomputed from that text, \<^verbatim>\<open>base64url\<close> of its SHA-256
  digest. Both are 43 characters of the URL-safe alphabet, without padding.
\<close>

theorem generatePKCE_roundtrip:
  assumes "length (randomBytes 32) = 32"
  shows "fst (generatePKCE randomBytes) = base64url (randomBytes 32)
       \<and> snd (generatePKCE randomBytes) = code_challenge_S256 (fst (generatePKCE randomBytes))
       \<and> snd (generatePKCE randomBytes) = base64url (sha256 (utf8 (fst (generatePKCE randomBytes))))
       \<and> length (fst (generatePKCE randomBytes)) = 43
       \<and> set (fst (generatePKCE randomBytes)) \<subseteq> set base64url_alphabet
       \<and> length (snd (generatePKCE randomBytes)) = 43
       \<and> set (snd (generatePKCE randomBytes)) \<subseteq> set base64url_alphabet"
  using assms
  by (simp add: generatePKCE_def code_challenge_S256_def Let_def length_base64url
        length_sha256 base64url_chars)

text \<open>
  The worked example of RFC 7636, Appendix B: from its 32 octets \<^verbatim>\<open>generatePKCE\<close>
  computes the verifier and the challenge printed there.
\<close>

lemma rfc7636_pair:
  "generatePKCE rfc7636_randomBytes =
     (''dBjftJeZ4CVP-mB92K27uhbUJU1p1r_wW1gFWFOEjXk'',
      ''E9Melhoa2OwvFrEMTJguCHaoeK1t8URWbuGJSstw-cM'')"
  by code_simp

theorem generatePKCE_roundtrip_witness:
  "length (rfc7636_randomBytes 32) = 32
   \<and> generatePKCE rfc7636_randomBytes =
       (''dBjftJeZ4CVP-mB92K27uhbUJU1p1r_wW1gFWFOEjXk'',
        ''E9Melhoa2OwvFrEMTJguCHaoeK1t8URWbuGJSstw-cM'')
   \<and> code_challenge_S256 ''dBjftJeZ4CVP-mB92K27uhbUJU1p1r_wW1gFWFOEjXk'' =
       ''E9Melhoa2OwvFrEMTJguCHaoeK1t8URWbuGJSstw-cM''"
proof -
  have len: "length (rfc7636_randomBytes 32) = 32"
    by (simp add: rfc7636_randomBytes_def rfc7636_octets_def)
  show ?thesis
    using len generatePKCE_roundtrip [of rfc7636_randomBytes] rfc7636_pair by simp
qed

end
